theory Spec2Isabelle
  imports Main
begin

section \<open>Pkt-line framing: \<open>packetWrite\<close>\<close>

text \<open>
  The Go source (\<open>cmd/frontend/internal/httpapi/internal.go\<close>):
  \<^verbatim>\<open>
  func packetWrite(str string) []byte {
      s := strconv.FormatInt(int64(len(str)+4), 16)
      if len(s)%4 != 0 {
          s = strings.Repeat("0", 4-len(s)%4) + s
      }
      return []byte(s + str)
  }
  \<close>
  A Go string is a sequence of bytes, as an Isabelle \<open>string\<close> is a list of 8-bit
  characters; \<open>len\<close> counts bytes.
\<close>

subsection \<open>The standard-library functions it calls\<close>

text \<open>
  \<open>strconv.FormatInt(i, 16)\<close>: the digit table of package \<open>strconv\<close>, and its loop
  for a base that is a power of two: while \<open>u >= 16\<close> the lowest digit is stored in
  front of the digits so far and \<open>u\<close> is shifted right by four bits; the last digit
  is \<open>u\<close> itself. A negative argument is formatted as \<open>-\<close> and the digits of its
  magnitude.
\<close>

definition digits :: string where
  "digits = ''0123456789abcdefghijklmnopqrstuvwxyz''"

function formatBits16 :: "nat \<Rightarrow> string" where
  "formatBits16 u = (if 16 \<le> u then formatBits16 (u div 16) @ [digits ! (u mod 16)]
                     else [digits ! u])"
  by pat_completeness auto
termination
  by (relation "measure (\<lambda>u. u)") auto

declare formatBits16.simps [simp del]

definition FormatInt16 :: "int \<Rightarrow> string" where
  "FormatInt16 i = (if i < 0 then CHR ''-'' # formatBits16 (nat (- i))
                    else formatBits16 (nat i))"

text \<open>\<open>strings.Repeat("0", n)\<close> for \<open>n \<ge> 0\<close>.\<close>

definition Repeat0 :: "nat \<Rightarrow> string" where
  "Repeat0 n = replicate n (CHR ''0'')"

subsection \<open>The encoder\<close>

text \<open>
  \<open>len(str)+4\<close> is computed in Go's \<open>int\<close> (64 bits on the platforms the server
  runs on) and converted to \<open>int64\<close>: the sum wraps around at \<open>2^63\<close>, which
  \<open>signed_take_bit 63\<close> writes out.
\<close>

definition int64 :: "int \<Rightarrow> int" where
  "int64 x = signed_take_bit 63 x"

definition packetWrite :: "string \<Rightarrow> string" where
  "packetWrite str =
     (let s = FormatInt16 (int64 (int (length str) + 4));
          s = (if length s mod 4 \<noteq> 0 then Repeat0 (4 - length s mod 4) @ s else s)
      in s @ str)"

subsection \<open>Reading a length prefix back\<close>

text \<open>
  The plain hexadecimal reader that the length prefix is checked against: digits
  \<open>0\<close>-\<open>9\<close> and lowercase \<open>a\<close>-\<open>f\<close> only, most significant digit first; any other
  character, and the empty string, do not parse.
\<close>

definition hexVal :: "char \<Rightarrow> nat option" where
  "hexVal c =
     (let n = (of_char c :: nat)
      in if 48 \<le> n \<and> n \<le> 57 then Some (n - 48)
         else if 97 \<le> n \<and> n \<le> 102 then Some (n - 87)
         else None)"

fun parseHexFrom :: "nat \<Rightarrow> string \<Rightarrow> nat option" where
  "parseHexFrom acc [] = Some acc"
| "parseHexFrom acc (c # cs) =
     (case hexVal c of None \<Rightarrow> None | Some d \<Rightarrow> parseHexFrom (16 * acc + d) cs)"

definition parseHex :: "string \<Rightarrow> nat option" where
  "parseHex s = (if s = [] then None else parseHexFrom 0 s)"

section \<open>The sync orchestrator and the Git smart-HTTP bridge\<close>

subsection \<open>Data\<close>

text \<open>
  The handlers of \<open>internal.go\<close> use a few types declared elsewhere in the repository
  (\<open>api.Repo\<close>, \<open>api.InsertRepoOp\<close>, \<open>schema.GitoliteConnection\<close>, the site
  configuration returned by \<open>conf.Get()\<close>). Each is a record of the fields the
  handlers read or write. A Go \<open>error\<close> value is its message.
\<close>

datatype error = Error string

type_synonym RepoURI = string

record Repo =
  Repo_URI :: RepoURI
  Repo_Enabled :: bool

record InsertRepoOp =
  InsertRepoOp_URI :: RepoURI
  InsertRepoOp_Enabled :: bool

record GitoliteConnection =
  Host :: string
  PhabricatorMetadataCommand :: string

record SiteConfiguration =
  Gitolite :: "GitoliteConnection list"
  DisableAutoGitUpdates :: bool

subsection \<open>What a handler does: events\<close>

text \<open>
  A handler is observed through what it does, in order: the log lines it prints
  (\<open>log15.Debug\<close>, \<open>Info\<close>, \<open>Warn\<close>, with their key/value context), the calls it makes to
  its collaborators, and what it does to the \<open>http.ResponseWriter\<close>
  (\<open>Header().Set\<close>, \<open>WriteHeader\<close>, \<open>Write\<close>). \<open>UploadPackCall\<close> stands for
  \<open>gitserver.DefaultClient.UploadPack(repo.URI, w, r)\<close>, which is handed the response
  writer and the request.
\<close>

datatype level = Debug | Info | Warn

datatype logval = LStr string | LInt nat | LBool bool | LErr error

datatype event =
    Log level string "(string \<times> logval) list"
  | ListGitoliteCall string
  | TryInsertNewBatchCall "InsertRepoOp list"
  | GetByURICall RepoURI
  | IsRepoClonedCall RepoURI
  | EnqueueRepoUpdateCall RepoURI
  | PhabricatorMetadataCall GitoliteConnection RepoURI string
  | CommandOutputCall RepoURI "string list"
  | UploadPackCall RepoURI
  | HeaderSet string string
  | WriteHeader nat
  | Write string

subsection \<open>Collaborators\<close>

text \<open>
  The packages the handlers call (\<open>conf\<close>, \<open>gitserver\<close>, \<open>backend.Repos\<close>,
  \<open>repoupdater\<close>, and \<open>tryUpdateGitolitePhabricatorMetadataDeprecated\<close> of this package)
  are not part of \<open>internal.go\<close>; they are parameters of the model. Each call reads
  and may change the state \<open>'w\<close> of the world outside the handler (the repository
  table, gitserver, the site configuration), so a collaborator may answer differently
  from one call to the next. \<open>conf.Get()\<close> only reads.
\<close>

record 'w collaborators =
  conf_Get :: "'w \<Rightarrow> SiteConfiguration"
  ListGitolite :: "string \<Rightarrow> 'w \<Rightarrow> (error + string list) \<times> 'w"
  TryInsertNewBatch :: "InsertRepoOp list \<Rightarrow> 'w \<Rightarrow> error option \<times> 'w"
  GetByURI :: "RepoURI \<Rightarrow> 'w \<Rightarrow> (error + Repo) \<times> 'w"
  IsRepoCloned :: "RepoURI \<Rightarrow> 'w \<Rightarrow> (error + bool) \<times> 'w"
  EnqueueRepoUpdate :: "RepoURI \<Rightarrow> 'w \<Rightarrow> error option \<times> 'w"
  tryUpdateGitolitePhabricatorMetadataDeprecated ::
    "GitoliteConnection \<Rightarrow> RepoURI \<Rightarrow> string \<Rightarrow> 'w \<Rightarrow> 'w"
  CommandOutput :: "RepoURI \<Rightarrow> string list \<Rightarrow> 'w \<Rightarrow> (error + string) \<times> 'w"
  UploadPack :: "RepoURI \<Rightarrow> 'w \<Rightarrow> 'w"

subsection \<open>\<open>serveGitoliteUpdateReposDeprecated\<close>\<close>

text \<open>
  \<^verbatim>\<open>
  for _, gconf := range conf.Get().Gitolite {
      rlist, err := gitserver.DefaultClient.ListGitolite(ctx, gconf.Host)
      if err != nil {
          return err
      }
      insertRepoOps := make([]api.InsertRepoOp, len(rlist))
      for i, entry := range rlist {
          insertRepoOps[i] = api.InsertRepoOp{URI: api.RepoURI(entry), Enabled: true}
      }
      if err := backend.Repos.TryInsertNewBatch(ctx, insertRepoOps); err != nil {
          log15.Warn("TryInsertNewBatch failed", "numRepos", len(insertRepoOps), "err", err)
      }
      for i, entry := range rlist {
          uri := api.RepoURI(entry)
          repo, err := backend.Repos.GetByURI(ctx, uri)
          if err != nil {
              log15.Warn("Could not ensure repository updated", "uri", uri, "error", err)
              continue
          }
          if !repo.Enabled {
              continue
          }
          cloned, err := gitserver.DefaultClient.IsRepoCloned(ctx, uri)
          if err != nil {
              log15.Warn("Could not ensure repository cloned", "uri", uri, "error", err)
              continue
          }
          if !conf.Get().DisableAutoGitUpdates || !cloned {
              log15.Info("fetching Gitolite repo", "repo", uri, "cloned", cloned, "i", i,
                         "total", len(rlist))
              err := repoupdater.DefaultClient.EnqueueRepoUpdate(ctx, gitserver.Repo{Name: repo.URI})
              if err != nil {
                  log15.Warn("Could not ensure repository cloned", "uri", uri, "error", err)
                  continue
              }
          }
          if gconf.PhabricatorMetadataCommand != "" {
              tryUpdateGitolitePhabricatorMetadataDeprecated(ctx, gconf, uri, entry)
          }
      }
  }
  w.WriteHeader(http.StatusNoContent)
  w.Write([]byte("OK"))
  return nil
  \<close>
  Every function below returns the events of the code it stands for and the state of
  the world afterwards. \<open>metadataStep\<close> is the last statement of the inner loop's
  body, \<open>entryBody\<close> the body of the inner loop (each \<open>continue\<close> ends it),
  \<open>entriesLoop\<close> the inner loop, with \<open>ntotal\<close> for \<open>len(rlist)\<close>, \<open>hostPass\<close> the
  body of the outer loop, \<open>hostsLoop\<close> the outer loop, which \<open>return err\<close> leaves.
\<close>

definition metadataStep ::
  "'w collaborators \<Rightarrow> GitoliteConnection \<Rightarrow> RepoURI \<Rightarrow> string \<Rightarrow> 'w \<Rightarrow> event list \<times> 'w" where
  "metadataStep C gconf uri entry w =
     (if PhabricatorMetadataCommand gconf \<noteq> ''''
      then ([PhabricatorMetadataCall gconf uri entry],
            tryUpdateGitolitePhabricatorMetadataDeprecated C gconf uri entry w)
      else ([], w))"

definition entryBody ::
  "'w collaborators \<Rightarrow> GitoliteConnection \<Rightarrow> nat \<Rightarrow> nat \<Rightarrow> string \<Rightarrow> 'w \<Rightarrow> event list \<times> 'w" where
  "entryBody C gconf ntotal i entry w0 =
     (let uri = entry in
      case GetByURI C uri w0 of
        (Inl err, w1) \<Rightarrow>
          ([GetByURICall uri,
            Log Warn ''Could not ensure repository updated''
              [(''uri'', LStr uri), (''error'', LErr err)]], w1)
      | (Inr repo, w1) \<Rightarrow>
          if \<not> Repo_Enabled repo then ([GetByURICall uri], w1)
          else
            (case IsRepoCloned C uri w1 of
               (Inl err, w2) \<Rightarrow>
                 ([GetByURICall uri, IsRepoClonedCall uri,
                   Log Warn ''Could not ensure repository cloned''
                     [(''uri'', LStr uri), (''error'', LErr err)]], w2)
             | (Inr cloned, w2) \<Rightarrow>
                 if \<not> DisableAutoGitUpdates (conf_Get C w2) \<or> \<not> cloned then
                   (case EnqueueRepoUpdate C (Repo_URI repo) w2 of
                      (Some err, w3) \<Rightarrow>
                        ([GetByURICall uri, IsRepoClonedCall uri,
                          Log Info ''fetching Gitolite repo''
                            [(''repo'', LStr uri), (''cloned'', LBool cloned),
                             (''i'', LInt i), (''total'', LInt ntotal)],
                          EnqueueRepoUpdateCall (Repo_URI repo),
                          Log Warn ''Could not ensure repository cloned''
                            [(''uri'', LStr uri), (''error'', LErr err)]], w3)
                    | (None, w3) \<Rightarrow>
                        (case metadataStep C gconf uri entry w3 of
                           (evs, w4) \<Rightarrow>
                             ([GetByURICall uri, IsRepoClonedCall uri,
                               Log Info ''fetching Gitolite repo''
                                 [(''repo'', LStr uri), (''cloned'', LBool cloned),
                                  (''i'', LInt i), (''total'', LInt ntotal)],
                               EnqueueRepoUpdateCall (Repo_URI repo)] @ evs, w4)))
                 else
                   (case metadataStep C gconf uri entry w2 of
                      (evs, w3) \<Rightarrow> ([GetByURICall uri, IsRepoClonedCall uri] @ evs, w3))))"

fun entriesLoop ::
  "'w collaborators \<Rightarrow> GitoliteConnection \<Rightarrow> nat \<Rightarrow> nat \<Rightarrow> string list \<Rightarrow> 'w \<Rightarrow> event list \<times> 'w" where
  "entriesLoop C gconf ntotal i [] w = ([], w)"
| "entriesLoop C gconf ntotal i (entry # rest) w =
     (case entryBody C gconf ntotal i entry w of
        (evs, w1) \<Rightarrow>
          (case entriesLoop C gconf ntotal (Suc i) rest w1 of
             (evs', w2) \<Rightarrow> (evs @ evs', w2)))"

definition hostPass ::
  "'w collaborators \<Rightarrow> GitoliteConnection \<Rightarrow> 'w \<Rightarrow> error option \<times> event list \<times> 'w" where
  "hostPass C gconf w0 =
     (case ListGitolite C (Host gconf) w0 of
        (Inl err, w1) \<Rightarrow> (Some err, [ListGitoliteCall (Host gconf)], w1)
      | (Inr rlist, w1) \<Rightarrow>
          (let insertRepoOps =
                 map (\<lambda>entry. \<lparr>InsertRepoOp_URI = entry, InsertRepoOp_Enabled = True\<rparr>) rlist
           in case TryInsertNewBatch C insertRepoOps w1 of
                (r, w2) \<Rightarrow>
                  (case entriesLoop C gconf (length rlist) 0 rlist w2 of
                     (evs, w3) \<Rightarrow>
                       (None,
                        [ListGitoliteCall (Host gconf), TryInsertNewBatchCall insertRepoOps]
                          @ (case r of
                               Some err \<Rightarrow>
                                 [Log Warn ''TryInsertNewBatch failed''
                                    [(''numRepos'', LInt (length insertRepoOps)),
                                     (''err'', LErr err)]]
                             | None \<Rightarrow> [])
                          @ evs,
                        w3))))"

fun hostsLoop ::
  "'w collaborators \<Rightarrow> GitoliteConnection list \<Rightarrow> 'w \<Rightarrow> error option \<times> event list \<times> 'w" where
  "hostsLoop C [] w = (None, [], w)"
| "hostsLoop C (gconf # rest) w =
     (case hostPass C gconf w of
        (Some err, evs, w1) \<Rightarrow> (Some err, evs, w1)
      | (None, evs, w1) \<Rightarrow>
          (case hostsLoop C rest w1 of (r, evs', w2) \<Rightarrow> (r, evs @ evs', w2)))"

definition serveGitoliteUpdateReposDeprecated ::
  "'w collaborators \<Rightarrow> 'w \<Rightarrow> error option \<times> event list \<times> 'w" where
  "serveGitoliteUpdateReposDeprecated C w =
     (case hostsLoop C (Gitolite (conf_Get C w)) w of
        (Some err, evs, w1) \<Rightarrow> (Some err, Log Debug ''serveGitoliteUpdateRepos'' [] # evs, w1)
      | (None, evs, w1) \<Rightarrow>
          (None,
           Log Debug ''serveGitoliteUpdateRepos'' [] # evs @ [WriteHeader 204, Write ''OK''],
           w1))"

subsection \<open>\<open>serveGitInfoRefs\<close> and \<open>serveGitUploadPack\<close>\<close>

text \<open>
  The inputs of both handlers are the \<open>service\<close> query parameter and the \<open>RepoURI\<close>
  route variable. \<open>cmd.Output\<close> runs \<open>git upload-pack --stateless-rpc --advertise-refs .\<close>
  on gitserver for the repository \<open>repo.URI\<close>.
\<close>

definition serveGitInfoRefs ::
  "'w collaborators \<Rightarrow> string \<Rightarrow> RepoURI \<Rightarrow> 'w \<Rightarrow> error option \<times> event list \<times> 'w" where
  "serveGitInfoRefs C service uri w0 =
     (if service \<noteq> ''git-upload-pack''
      then (Some (Error ''only support service git-upload-pack''), [], w0)
      else
        case GetByURI C uri w0 of
          (Inl err, w1) \<Rightarrow> (Some err, [GetByURICall uri], w1)
        | (Inr repo, w1) \<Rightarrow>
            if \<not> Repo_Enabled repo
            then (Some (Error (''repo is not enabled: '' @ Repo_URI repo)),
                  [GetByURICall uri], w1)
            else
              (case CommandOutput C (Repo_URI repo)
                      [''git'', ''upload-pack'', ''--stateless-rpc'', ''--advertise-refs'', ''.'']
                      w1 of
                 (Inl err, w2) \<Rightarrow>
                   (Some err,
                    [GetByURICall uri,
                     CommandOutputCall (Repo_URI repo)
                       [''git'', ''upload-pack'', ''--stateless-rpc'', ''--advertise-refs'',
                        ''.'']],
                    w2)
               | (Inr refs, w2) \<Rightarrow>
                   (None,
                    [GetByURICall uri,
                     CommandOutputCall (Repo_URI repo)
                       [''git'', ''upload-pack'', ''--stateless-rpc'', ''--advertise-refs'',
                        ''.''],
                     HeaderSet ''Content-Type'' ''application/x-git-upload-pack-advertisement'',
                     WriteHeader 200,
                     Write (packetWrite (''# service=git-upload-pack'' @ [CHR 0x0A])),
                     Write ''0000'',
                     Write refs],
                    w2)))"


subsection \<open>Reading a run\<close>

text \<open>
  \<open>responseBody\<close> is the body the client receives: the bytes of the \<open>Write\<close> calls, in
  order. The other functions pick out one kind of event.
\<close>

fun isWrite :: "event \<Rightarrow> bool" where
  "isWrite (Write b) = True"
| "isWrite _ = False"

fun responseBody :: "event list \<Rightarrow> string" where
  "responseBody [] = []"
| "responseBody (Write b # evs) = b @ responseBody evs"
| "responseBody (_ # evs) = responseBody evs"


fun isEnqueueCall :: "event \<Rightarrow> bool" where
  "isEnqueueCall (EnqueueRepoUpdateCall uri) = True"
| "isEnqueueCall _ = False"

fun isMetadataCall :: "event \<Rightarrow> bool" where
  "isMetadataCall (PhabricatorMetadataCall gconf uri entry) = True"
| "isMetadataCall _ = False"






subsection \<open>Concrete configurations\<close>

text \<open>
  Host \<open>h1\<close> cannot be listed; host \<open>h2\<close> lists four repositories and has a metadata
  command. The state of the world counts the lookups made so far: \<open>c\<close> is not found
  until three lookups have been made, \<open>d\<close> is disabled, only \<open>a\<close> is cloned, and the
  dispatch for \<open>b\<close> fails. \<open>testC\<close> has auto-updates disabled and lists \<open>h1\<close> first;
  \<open>testC2\<close> has them enabled and lists \<open>h2\<close> first.
\<close>

definition h2 :: GitoliteConnection where
  "h2 = \<lparr>Host = ''h2'', PhabricatorMetadataCommand = ''cmd''\<rparr>"

definition h1 :: GitoliteConnection where
  "h1 = \<lparr>Host = ''h1'', PhabricatorMetadataCommand = ''''\<rparr>"

definition testC :: "nat collaborators" where
  "testC =
     \<lparr>conf_Get = (\<lambda>w.
        \<lparr>Gitolite = [h1, h2], DisableAutoGitUpdates = True\<rparr>),
      ListGitolite = (\<lambda>host w.
        (if host = ''h1'' then Inl (Error ''unreachable'')
         else Inr [''a'', ''b'', ''c'', ''d''], w)),
      TryInsertNewBatch = (\<lambda>ops w. (None, w)),
      GetByURI = (\<lambda>uri w.
        (if uri = ''c'' \<and> w < 3 then Inl (Error ''repo not found'')
         else Inr \<lparr>Repo_URI = uri, Repo_Enabled = (uri \<noteq> ''d'')\<rparr>, Suc w)),
      IsRepoCloned = (\<lambda>uri w. (Inr (uri = ''a''), w)),
      EnqueueRepoUpdate = (\<lambda>uri w. (if uri = ''b'' then Some (Error ''busy'') else None, w)),
      tryUpdateGitolitePhabricatorMetadataDeprecated = (\<lambda>gconf uri entry w. w),
      CommandOutput = (\<lambda>uri args w. (Inr ''0000'', w)),
      UploadPack = (\<lambda>uri w. w)\<rparr>"

definition testC2 :: "nat collaborators" where
  "testC2 = testC
     \<lparr>conf_Get := (\<lambda>w.
        \<lparr>Gitolite = [h2, h1], DisableAutoGitUpdates = False\<rparr>)\<rparr>"

text \<open>
  In \<open>queueC\<close> the state of the world is what the update dispatcher has queued and what
  the metadata refresh has refreshed, in order. \<open>c\<close> is never found, \<open>d\<close> is disabled,
  only \<open>a\<close> is cloned, the dispatch for \<open>b\<close> fails and queues nothing; the argument is
  the \<open>DisableAutoGitUpdates\<close> flag of the site configuration.
\<close>

definition queueC :: "bool \<Rightarrow> (RepoURI list \<times> string list) collaborators" where
  "queueC disabled =
     \<lparr>conf_Get = (\<lambda>w. \<lparr>Gitolite = [h2], DisableAutoGitUpdates = disabled\<rparr>),
      ListGitolite = (\<lambda>host w. (Inr [''a'', ''c'', ''e'', ''d''], w)),
      TryInsertNewBatch = (\<lambda>ops w. (None, w)),
      GetByURI = (\<lambda>uri w.
        (if uri = ''c'' then Inl (Error ''repo not found'')
         else Inr \<lparr>Repo_URI = uri, Repo_Enabled = (uri \<noteq> ''d'')\<rparr>, w)),
      IsRepoCloned = (\<lambda>uri w. (Inr (uri = ''a''), w)),
      EnqueueRepoUpdate = (\<lambda>uri w.
        if uri = ''b'' then (Some (Error ''busy''), w) else (None, (fst w @ [uri], snd w))),
      tryUpdateGitolitePhabricatorMetadataDeprecated =
        (\<lambda>gconf uri entry w. (fst w, snd w @ [entry])),
      CommandOutput = (\<lambda>uri args w. (Inr ''0000'', w)),
      UploadPack = (\<lambda>uri w. w)\<rparr>"

section \<open>Properties of the encoder\<close>

lemma hexVal_digits: "d < 16 \<Longrightarrow> hexVal (digits ! d) = Some d"
proof -
  assume "d < 16"
  then consider "d = 0" | "d = 1" | "d = 2" | "d = 3" | "d = 4" | "d = 5" | "d = 6"
    | "d = 7" | "d = 8" | "d = 9" | "d = 10" | "d = 11" | "d = 12" | "d = 13"
    | "d = 14" | "d = 15"
    by atomize_elim arith
  then show ?thesis
    by cases (simp_all add: digits_def hexVal_def)
qed

lemma formatBits16_nonempty: "formatBits16 u \<noteq> []"
  by (subst formatBits16.simps) simp

lemma parseHexFrom_append:
  "parseHexFrom acc (xs @ ys) =
     (case parseHexFrom acc xs of None \<Rightarrow> None | Some a \<Rightarrow> parseHexFrom a ys)"
  by (induction xs arbitrary: acc) (auto split: option.splits)

lemma parseHexFrom_formatBits16: "parseHexFrom 0 (formatBits16 u) = Some u"
proof (induction u rule: formatBits16.induct)
  case (1 u)
  show ?case
  proof (cases "16 \<le> u")
    case True
    have d: "hexVal (digits ! (u mod 16)) = Some (u mod 16)"
      by (rule hexVal_digits) simp
    from True have "formatBits16 u = formatBits16 (u div 16) @ [digits ! (u mod 16)]"
      by (subst formatBits16.simps) simp
    with 1 True d show ?thesis
      by (simp add: parseHexFrom_append)
  next
    case False
    then have "formatBits16 u = [digits ! u]"
      by (subst formatBits16.simps) simp
    with False show ?thesis
      by (simp add: hexVal_digits)
  qed
qed

lemma parseHexFrom_zeros: "parseHexFrom 0 (Repeat0 k @ s) = parseHexFrom 0 s"
  by (induction k) (simp_all add: Repeat0_def hexVal_def)

lemma length_formatBits16_le: "u < 16 ^ Suc k \<Longrightarrow> length (formatBits16 u) \<le> Suc k"
proof (induction k arbitrary: u)
  case 0
  then show ?case by (subst formatBits16.simps) simp
next
  case (Suc k)
  show ?case
  proof (cases "16 \<le> u")
    case True
    from Suc.prems have "u div 16 < 16 ^ Suc k"
      by (simp add: less_mult_imp_div_less)
    then have "length (formatBits16 (u div 16)) \<le> Suc k"
      by (rule Suc.IH)
    with True show ?thesis
      by (subst formatBits16.simps) simp
  next
    case False
    then show ?thesis by (subst formatBits16.simps) simp
  qed
qed

lemma length_formatBits16_gt: "16 ^ k \<le> u \<Longrightarrow> k < length (formatBits16 u)"
proof (induction k arbitrary: u)
  case 0
  then show ?case using formatBits16_nonempty [of u] by (cases "formatBits16 u") simp_all
next
  case (Suc k)
  then have big: "16 \<le> u"
    by (metis One_nat_def le_trans one_le_numeral one_le_power power_Suc
        mult.commute mult_le_mono1 mult_1)
  from Suc.prems have "16 ^ k \<le> u div 16"
    by (simp add: less_eq_div_iff_mult_less_eq mult.commute)
  then have "k < length (formatBits16 (u div 16))"
    by (rule Suc.IH)
  with big show ?case
    by (subst formatBits16.simps) simp
qed

lemma int64_small: "n + 4 < 2 ^ 63 \<Longrightarrow> int64 (int n + 4) = int n + 4"
proof -
  assume "n + 4 < 2 ^ 63"
  then have "int (n + 4) < int (2 ^ 63)"
    by (simp only: of_nat_less_iff)
  then have "int n + 4 < 2 ^ 63"
    by simp
  moreover have "- (2 ^ 63) \<le> int n + 4"
    by (rule order_trans [of _ 0]) simp_all
  ultimately show ?thesis
    unfolding int64_def by (simp add: signed_take_bit_int_eq_self)
qed

lemma packetWrite_prefix:
  assumes "length str + 4 < 2 ^ 63"
  shows "packetWrite str =
           (if length (formatBits16 (length str + 4)) mod 4 \<noteq> 0
            then Repeat0 (4 - length (formatBits16 (length str + 4)) mod 4)
                   @ formatBits16 (length str + 4)
            else formatBits16 (length str + 4)) @ str"
proof -
  have "int64 (int (length str) + 4) = int (length str) + 4"
    using assms by (rule int64_small)
  moreover have "nat (int (length str) + 4) = length str + 4"
    by simp
  ultimately show ?thesis
    by (simp add: packetWrite_def FormatInt16_def Let_def)
qed

lemma digits_lowercase_hex: "d < 16 \<Longrightarrow> digits ! d \<in> set ''0123456789abcdef''"
proof -
  assume "d < 16"
  then consider "d = 0" | "d = 1" | "d = 2" | "d = 3" | "d = 4" | "d = 5" | "d = 6"
    | "d = 7" | "d = 8" | "d = 9" | "d = 10" | "d = 11" | "d = 12" | "d = 13"
    | "d = 14" | "d = 15"
    by atomize_elim arith
  then show ?thesis
    by cases (simp_all add: digits_def)
qed

lemma set_formatBits16: "set (formatBits16 u) \<subseteq> set ''0123456789abcdef''"
proof (induction u rule: formatBits16.induct)
  case (1 u)
  show ?case
  proof (cases "16 \<le> u")
    case True
    have "digits ! (u mod 16) \<in> set ''0123456789abcdef''"
      by (rule digits_lowercase_hex) simp
    moreover from True have "formatBits16 u = formatBits16 (u div 16) @ [digits ! (u mod 16)]"
      by (subst formatBits16.simps) simp
    ultimately show ?thesis
      using 1 True by simp
  next
    case False
    then have "formatBits16 u = [digits ! u]"
      by (subst formatBits16.simps) simp
    moreover from False have "digits ! u \<in> set ''0123456789abcdef''"
      by (intro digits_lowercase_hex) simp
    ultimately show ?thesis by simp
  qed
qed

lemma set_Repeat0: "set (Repeat0 k) \<subseteq> set ''0123456789abcdef''"
  by (auto simp: Repeat0_def)

lemma parseHex_padded: "parseHex (Repeat0 k @ formatBits16 u) = Some u"
  by (simp add: parseHex_def formatBits16_nonempty parseHexFrom_zeros parseHexFrom_formatBits16)

text \<open>
  \<^bold>\<open>C5.\<close> For every payload of length \<open>L\<close> with \<open>0 \<le> L \<le> 65516\<close>, \<open>packetWrite\<close>
  returns \<open>L + 4\<close> bytes: the first four are the lowercase hexadecimal digits of
  \<open>L + 4\<close> as \<open>strconv.FormatInt\<close> prints them, left-padded with \<open>0\<close> to exactly four
  characters, they read back as \<open>L + 4\<close>, and the payload follows unchanged.
\<close>

theorem packetWrite_frame:
  assumes "length str \<le> 65516"
  shows "length (packetWrite str) = length str + 4
       \<and> take 4 (packetWrite str) =
           Repeat0 (4 - length (FormatInt16 (int (length str) + 4)))
             @ FormatInt16 (int (length str) + 4)
       \<and> set (take 4 (packetWrite str)) \<subseteq> set ''0123456789abcdef''
       \<and> parseHex (take 4 (packetWrite str)) = Some (length str + 4)
       \<and> drop 4 (packetWrite str) = str"
proof -
  define s where "s = formatBits16 (length str + 4)"
  define p where "p = Repeat0 (4 - length s) @ s"
  have fmt: "FormatInt16 (int (length str) + 4) = s"
  proof -
    have "nat (int (length str) + 4) = length str + 4" by simp
    then show ?thesis by (simp add: FormatInt16_def s_def)
  qed
  from assms have "length str + 4 < 16 ^ Suc 3" by simp
  then have le: "length s \<le> 4"
    unfolding s_def by (rule length_formatBits16_le [THEN order_trans]) simp
  have ne: "s \<noteq> []"
    by (simp add: s_def formatBits16_nonempty)
  from assms have "length str + 4 < 2 ^ 63" by simp
  then have pw: "packetWrite str =
      (if length s mod 4 \<noteq> 0 then Repeat0 (4 - length s mod 4) @ s else s) @ str"
    unfolding s_def by (rule packetWrite_prefix)
  have "(if length s mod 4 \<noteq> 0 then Repeat0 (4 - length s mod 4) @ s else s) = p"
  proof (cases "length s = 4")
    case True
    then show ?thesis by (simp add: p_def Repeat0_def)
  next
    case False
    with le ne have "0 < length s" "length s < 4" by simp_all
    then show ?thesis by (simp add: p_def)
  qed
  with pw have eq: "packetWrite str = p @ str" by simp
  have lp: "length p = 4"
    using le by (simp add: p_def Repeat0_def)
  have "set p \<subseteq> set ''0123456789abcdef''"
    unfolding p_def s_def using set_Repeat0 set_formatBits16 by (simp del: set_simps)
  moreover have "parseHex p = Some (length str + 4)"
    unfolding p_def s_def by (rule parseHex_padded)
  ultimately show ?thesis
    using eq lp fmt by (simp add: p_def del: set_simps)
qed

theorem packetWrite_frame_witness:
  "length ''# service=git-upload-pack'' \<le> 65516
   \<and> length (packetWrite ''# service=git-upload-pack'') = 29
   \<and> take 4 (packetWrite ''# service=git-upload-pack'') = ''001d''
   \<and> parseHex (take 4 (packetWrite ''# service=git-upload-pack'')) = Some 29
   \<and> drop 4 (packetWrite ''# service=git-upload-pack'') = ''# service=git-upload-pack''"
proof -
  have h: "length ''# service=git-upload-pack'' \<le> 65516"
    by simp
  note frame = packetWrite_frame [OF h]
  have "FormatInt16 29 = ''1d''"
    by (simp add: FormatInt16_def formatBits16.simps digits_def)
  with frame [THEN conjunct2, THEN conjunct1]
  have "take 4 (packetWrite ''# service=git-upload-pack'') = ''001d''"
    by (simp add: Repeat0_def numeral_2_eq_2)
  moreover from frame [THEN conjunct1]
  have "length (packetWrite ''# service=git-upload-pack'') = 29"
    by simp
  moreover from frame [THEN conjunct2, THEN conjunct2, THEN conjunct2, THEN conjunct1]
  have "parseHex (take 4 (packetWrite ''# service=git-upload-pack'')) = Some 29"
    by simp
  moreover from frame [THEN conjunct2, THEN conjunct2, THEN conjunct2, THEN conjunct2]
  have "drop 4 (packetWrite ''# service=git-upload-pack'') = ''# service=git-upload-pack''"
    by simp
  ultimately show ?thesis
    using h by (intro conjI)
qed

text \<open>
  \<^bold>\<open>C6.\<close> The claim that a payload longer than 65516 bytes is rejected with a framing
  error does not hold: \<open>packetWrite\<close> has no error result. A payload of 65532 bytes
  (\<open>L + 4 = 0x10000\<close>) gets an eight-character prefix.
\<close>

theorem packetWrite_oversize_counterexample:
  "packetWrite (replicate 65532 (CHR ''a'')) = ''00010000'' @ replicate 65532 (CHR ''a'')"
proof -
  have "length (replicate 65532 (CHR ''a'')) + 4 < 2 ^ 63"
    by (simp only: length_replicate) simp
  moreover have "Repeat0 3 = ''000''"
    by (simp add: Repeat0_def numeral_3_eq_3)
  ultimately show ?thesis
    by (simp only: packetWrite_prefix length_replicate)
       (simp add: formatBits16.simps digits_def del: replicate.simps)
qed

text \<open>
  \<^bold>\<open>C6, as the code has it.\<close> For every payload of length \<open>L > 65516\<close> (and, as for
  every Go string, \<open>L + 4 < 2^63\<close>) \<open>packetWrite\<close> returns a frame: a prefix followed
  by the payload unchanged. The prefix reads back as \<open>L + 4\<close>, its length is a
  multiple of four, and it has exactly four characters only while \<open>L + 4\<close> still fits
  in four hexadecimal digits (\<open>L \<le> 65531\<close>).
\<close>

theorem packetWrite_oversize:
  assumes "65516 < length str" and "length str + 4 < 2 ^ 63"
  shows "\<exists>p. packetWrite str = p @ str
           \<and> parseHex p = Some (length str + 4)
           \<and> 4 \<le> length p \<and> length p mod 4 = 0
           \<and> (length p = 4) = (length str + 4 < 65536)"
proof -
  define s where "s = formatBits16 (length str + 4)"
  define p where "p = (if length s mod 4 \<noteq> 0 then Repeat0 (4 - length s mod 4) @ s else s)"
  have pw: "packetWrite str = p @ str"
    unfolding p_def s_def using assms(2) by (rule packetWrite_prefix)
  have ne: "s \<noteq> []"
    by (simp add: s_def formatBits16_nonempty)
  have ph: "parseHex p = Some (length str + 4)"
  proof (cases "length s mod 4 \<noteq> 0")
    case True
    then show ?thesis unfolding p_def s_def by (simp add: parseHex_padded)
  next
    case False
    then have "p = Repeat0 0 @ s" by (simp add: p_def Repeat0_def)
    then show ?thesis unfolding s_def by (simp only: parseHex_padded)
  qed
  have l4: "length p mod 4 = 0"
  proof (cases "length s mod 4 \<noteq> 0")
    case True
    have "length s = 4 * (length s div 4) + length s mod 4" by simp
    moreover have "length s mod 4 < 4" by simp
    ultimately have "(4 - length s mod 4 + length s) mod 4 = 0"
      by presburger
    with True show ?thesis by (simp add: p_def Repeat0_def)
  next
    case False
    then show ?thesis by (simp add: p_def)
  qed
  have pos: "0 < length p"
    using ne by (simp add: p_def)
  with l4 have ge: "4 \<le> length p" by presburger
  have "(length p = 4) = (length str + 4 < 65536)"
  proof (cases "length str + 4 < 65536")
    case True
    then have "length str + 4 < 16 ^ Suc 3" by simp
    then have "length s \<le> 4"
      unfolding s_def by (rule length_formatBits16_le [THEN order_trans]) simp
    then have "length p \<le> 4"
      by (cases "length s = 4") (simp_all add: p_def Repeat0_def)
    with ge True show ?thesis by simp
  next
    case False
    then have "16 ^ 4 \<le> length str + 4" by simp
    then have "4 < length s"
      unfolding s_def by (rule length_formatBits16_gt)
    moreover have "length s \<le> length p"
      by (simp add: p_def)
    ultimately have "4 < length p"
      by simp
    with False show ?thesis by simp
  qed
  with pw ph ge l4 show ?thesis
    by (intro exI [of _ p] conjI)
qed

theorem packetWrite_oversize_witness:
  "65516 < length (replicate 65532 (CHR ''a''))
   \<and> length (replicate 65532 (CHR ''a'')) + 4 < 2 ^ 63
   \<and> (\<exists>p. packetWrite (replicate 65532 (CHR ''a'')) = p @ replicate 65532 (CHR ''a'')
           \<and> parseHex p = Some 65536 \<and> 4 \<le> length p \<and> length p mod 4 = 0
           \<and> length p \<noteq> 4)"
proof -
  have a: "65516 < length (replicate 65532 (CHR ''a''))"
    by simp
  have b: "length (replicate 65532 (CHR ''a'')) + 4 < 2 ^ 63"
    by simp
  have c: "length (replicate 65532 (CHR ''a'')) + 4 = 65536"
    by simp
  from packetWrite_oversize [OF a b] a b show ?thesis
    unfolding c by simp
qed

section \<open>Properties of the bridge\<close>

lemma packetWrite_service_header:
  "packetWrite (''# service=git-upload-pack'' @ [CHR 0x0A])
     = ''001e# service=git-upload-pack'' @ [CHR 0x0A]"
proof -
  have "length (''# service=git-upload-pack'' @ [CHR 0x0A]) + 4 < 2 ^ 63"
    by simp
  moreover have "Repeat0 2 = ''00''"
    by (simp add: Repeat0_def numeral_2_eq_2)
  ultimately show ?thesis
    by (simp add: packetWrite_prefix formatBits16.simps digits_def)
qed

text \<open>
  \<^bold>\<open>C7.\<close> For every value of the \<open>service\<close> parameter other than \<open>git-upload-pack\<close>,
  \<open>serveGitInfoRefs\<close> returns the unsupported-service error and does nothing else: no
  lookup, no backend call, no byte written, the world unchanged.
\<close>

theorem serveGitInfoRefs_unsupported_service:
  assumes "service \<noteq> ''git-upload-pack''"
  shows "serveGitInfoRefs C service uri w
           = (Some (Error ''only support service git-upload-pack''), [], w)"
  using assms by (simp add: serveGitInfoRefs_def)

theorem serveGitInfoRefs_unsupported_service_witness:
  "''git-receive-pack'' \<noteq> ''git-upload-pack''
   \<and> serveGitInfoRefs testC ''git-receive-pack'' ''a'' 0
       = (Some (Error ''only support service git-upload-pack''), [], 0)"
  using serveGitInfoRefs_unsupported_service [of "''git-receive-pack''" testC "''a''" 0]
  by simp

text \<open>
  \<^bold>\<open>C4.\<close> When the service is \<open>git-upload-pack\<close>, the repository resolves and is
  enabled, and the advertise-refs command succeeds with output \<open>refs\<close>, the handler
  returns no error, the response body is exactly
  \<open>packetWrite "# service=git-upload-pack\n"\<close>, then \<open>0000\<close>, then \<open>refs\<close> as it is, and the
  \<open>Content-Type\<close> header is set to the advertisement media type before any \<open>Write\<close>.
\<close>

theorem serveGitInfoRefs_advertisement:
  assumes "GetByURI C uri w = (Inr repo, w1)"
    and "Repo_Enabled repo"
    and "CommandOutput C (Repo_URI repo)
           [''git'', ''upload-pack'', ''--stateless-rpc'', ''--advertise-refs'', ''.''] w1
         = (Inr refs, w2)"
  shows "fst (serveGitInfoRefs C ''git-upload-pack'' uri w) = None
       \<and> responseBody (fst (snd (serveGitInfoRefs C ''git-upload-pack'' uri w)))
           = packetWrite (''# service=git-upload-pack'' @ [CHR 0x0A]) @ ''0000'' @ refs
       \<and> responseBody (fst (snd (serveGitInfoRefs C ''git-upload-pack'' uri w)))
           = ''001e# service=git-upload-pack'' @ [CHR 0x0A] @ ''0000'' @ refs
       \<and> (\<exists>pre post.
             fst (snd (serveGitInfoRefs C ''git-upload-pack'' uri w))
               = pre @ HeaderSet ''Content-Type''
                         ''application/x-git-upload-pack-advertisement'' # post
             \<and> filter isWrite pre = [])"
proof -
  let ?call = "CommandOutputCall (Repo_URI repo)
                 [''git'', ''upload-pack'', ''--stateless-rpc'', ''--advertise-refs'', ''.'']"
  let ?hdr = "HeaderSet ''Content-Type'' ''application/x-git-upload-pack-advertisement''"
  let ?post = "[WriteHeader 200,
                Write (packetWrite (''# service=git-upload-pack'' @ [CHR 0x0A])),
                Write ''0000'', Write refs]"
  have run: "serveGitInfoRefs C ''git-upload-pack'' uri w
               = (None, [GetByURICall uri, ?call] @ ?hdr # ?post, w2)"
    using assms by (simp add: serveGitInfoRefs_def)
  have body: "responseBody ([GetByURICall uri, ?call] @ ?hdr # ?post)
                = packetWrite (''# service=git-upload-pack'' @ [CHR 0x0A]) @ ''0000'' @ refs"
    by simp
  have "filter isWrite [GetByURICall uri, ?call] = []"
    by simp
  then have "\<exists>pre post. [GetByURICall uri, ?call] @ ?hdr # ?post = pre @ ?hdr # post
                \<and> filter isWrite pre = []"
    by blast
  with run body show ?thesis
    by (simp only: fst_conv snd_conv packetWrite_service_header) simp
qed

theorem serveGitInfoRefs_advertisement_witness:
  "GetByURI testC ''a'' 0 = (Inr \<lparr>Repo_URI = ''a'', Repo_Enabled = True\<rparr>, 1)
   \<and> CommandOutput testC ''a''
        [''git'', ''upload-pack'', ''--stateless-rpc'', ''--advertise-refs'', ''.''] 1
      = (Inr ''0000'', 1)
   \<and> fst (serveGitInfoRefs testC ''git-upload-pack'' ''a'' 0) = None
   \<and> responseBody (fst (snd (serveGitInfoRefs testC ''git-upload-pack'' ''a'' 0)))
       = ''001e# service=git-upload-pack'' @ [CHR 0x0A] @ ''00000000''"
proof -
  have a: "GetByURI testC ''a'' 0 = (Inr \<lparr>Repo_URI = ''a'', Repo_Enabled = True\<rparr>, 1)"
    by (simp add: testC_def)
  have b: "Repo_Enabled \<lparr>Repo_URI = ''a'', Repo_Enabled = True\<rparr>"
    by simp
  have c: "CommandOutput testC (Repo_URI \<lparr>Repo_URI = ''a'', Repo_Enabled = True\<rparr>)
             [''git'', ''upload-pack'', ''--stateless-rpc'', ''--advertise-refs'', ''.''] 1
           = (Inr ''0000'', 1)"
    by (simp add: testC_def)
  note adv = serveGitInfoRefs_advertisement [OF a b c]
  from adv [THEN conjunct2, THEN conjunct2, THEN conjunct1]
  have "responseBody (fst (snd (serveGitInfoRefs testC ''git-upload-pack'' ''a'' 0)))
          = ''001e# service=git-upload-pack'' @ [CHR 0x0A] @ ''00000000''"
    by simp
  moreover from c
  have "CommandOutput testC ''a''
          [''git'', ''upload-pack'', ''--stateless-rpc'', ''--advertise-refs'', ''.''] 1
        = (Inr ''0000'', 1)"
    by simp
  ultimately show ?thesis
    using a adv [THEN conjunct1] by (intro conjI)
qed




section \<open>Properties of the orchestrator\<close>


lemma hostsLoop_append:
  "hostsLoop C (xs @ ys) w =
     (case hostsLoop C xs w of
        (Some err, evs, w1) \<Rightarrow> (Some err, evs, w1)
      | (None, evs, w1) \<Rightarrow>
          (case hostsLoop C ys w1 of (r, evs', w2) \<Rightarrow> (r, evs @ evs', w2)))"
  by (induction xs arbitrary: w) (auto split: prod.splits option.splits)












lemma hostPass_testC2_h2:
  "hostPass testC2 h2 0 =
     (None,
      [ListGitoliteCall ''h2'',
       TryInsertNewBatchCall
         [\<lparr>InsertRepoOp_URI = ''a'', InsertRepoOp_Enabled = True\<rparr>,
          \<lparr>InsertRepoOp_URI = ''b'', InsertRepoOp_Enabled = True\<rparr>,
          \<lparr>InsertRepoOp_URI = ''c'', InsertRepoOp_Enabled = True\<rparr>,
          \<lparr>InsertRepoOp_URI = ''d'', InsertRepoOp_Enabled = True\<rparr>],
       GetByURICall ''a'', IsRepoClonedCall ''a'',
       Log Info ''fetching Gitolite repo''
         [(''repo'', LStr ''a''), (''cloned'', LBool True), (''i'', LInt 0),
          (''total'', LInt 4)],
       EnqueueRepoUpdateCall ''a'',
       PhabricatorMetadataCall h2 ''a'' ''a'',
       GetByURICall ''b'', IsRepoClonedCall ''b'',
       Log Info ''fetching Gitolite repo''
         [(''repo'', LStr ''b''), (''cloned'', LBool False), (''i'', LInt 1),
          (''total'', LInt 4)],
       EnqueueRepoUpdateCall ''b'',
       Log Warn ''Could not ensure repository cloned''
         [(''uri'', LStr ''b''), (''error'', LErr (Error ''busy''))],
       GetByURICall ''c'',
       Log Warn ''Could not ensure repository updated''
         [(''uri'', LStr ''c''), (''error'', LErr (Error ''repo not found''))],
       GetByURICall ''d''],
      4)"
  by (simp add: hostPass_def entryBody_def metadataStep_def testC2_def testC_def h2_def Let_def)

text \<open>
  \<^bold>\<open>C2.\<close> For an entry that resolves to an enabled repository and whose clone-presence
  check succeeds with \<open>cloned\<close>, the body of the loop applies the update dispatcher
  \<open>EnqueueRepoUpdate\<close> (once, to \<open>repo.URI\<close>, in the world the clone-presence check left)
  if and only if the repository is not cloned or auto-updates are not disabled. With
  \<open>(r, w3)\<close> the answer of the dispatcher in that world, the whole result of the body is
  determined: when it enqueues, the events carry the dispatch and the final world
  comes from \<open>w3\<close>; when it skips, there is no dispatch and the final world comes from
  \<open>w2\<close>, the dispatcher not having been applied. The four rows of the decision table
  are run on \<open>queueC\<close> below.
\<close>

theorem enqueue_decision:
  assumes "GetByURI C entry w = (Inr repo, w1)"
    and "Repo_Enabled repo"
    and "IsRepoCloned C entry w1 = (Inr cloned, w2)"
    and "EnqueueRepoUpdate C (Repo_URI repo) w2 = (r, w3)"
  shows "entryBody C gconf ntotal i entry w =
           (if \<not> cloned \<or> \<not> DisableAutoGitUpdates (conf_Get C w2)
            then
              (case r of
                 None \<Rightarrow>
                   ([GetByURICall entry, IsRepoClonedCall entry,
                     Log Info ''fetching Gitolite repo''
                       [(''repo'', LStr entry), (''cloned'', LBool cloned),
                        (''i'', LInt i), (''total'', LInt ntotal)],
                     EnqueueRepoUpdateCall (Repo_URI repo)]
                    @ (if PhabricatorMetadataCommand gconf \<noteq> ''''
                       then [PhabricatorMetadataCall gconf entry entry] else []),
                    if PhabricatorMetadataCommand gconf \<noteq> ''''
                    then tryUpdateGitolitePhabricatorMetadataDeprecated C gconf entry entry w3
                    else w3)
               | Some err \<Rightarrow>
                   ([GetByURICall entry, IsRepoClonedCall entry,
                     Log Info ''fetching Gitolite repo''
                       [(''repo'', LStr entry), (''cloned'', LBool cloned),
                        (''i'', LInt i), (''total'', LInt ntotal)],
                     EnqueueRepoUpdateCall (Repo_URI repo),
                     Log Warn ''Could not ensure repository cloned''
                       [(''uri'', LStr entry), (''error'', LErr err)]],
                    w3))
            else
              ([GetByURICall entry, IsRepoClonedCall entry]
               @ (if PhabricatorMetadataCommand gconf \<noteq> ''''
                  then [PhabricatorMetadataCall gconf entry entry] else []),
               if PhabricatorMetadataCommand gconf \<noteq> ''''
               then tryUpdateGitolitePhabricatorMetadataDeprecated C gconf entry entry w2
               else w2))
       \<and> filter isEnqueueCall (fst (entryBody C gconf ntotal i entry w))
           = (if \<not> cloned \<or> \<not> DisableAutoGitUpdates (conf_Get C w2)
              then [EnqueueRepoUpdateCall (Repo_URI repo)] else [])"
  using assms
  by (cases r) (simp_all add: entryBody_def metadataStep_def)

theorem enqueue_decision_witness:
  "entryBody (queueC True) h2 4 0 ''e'' ([], [])
     = ([GetByURICall ''e'', IsRepoClonedCall ''e'',
         Log Info ''fetching Gitolite repo''
           [(''repo'', LStr ''e''), (''cloned'', LBool False), (''i'', LInt 0),
            (''total'', LInt 4)],
         EnqueueRepoUpdateCall ''e'', PhabricatorMetadataCall h2 ''e'' ''e''],
        ([''e''], [''e'']))
   \<and> entryBody (queueC True) h2 4 0 ''a'' ([], [])
     = ([GetByURICall ''a'', IsRepoClonedCall ''a'', PhabricatorMetadataCall h2 ''a'' ''a''],
        ([], [''a'']))
   \<and> entryBody (queueC False) h2 4 0 ''e'' ([], [])
     = ([GetByURICall ''e'', IsRepoClonedCall ''e'',
         Log Info ''fetching Gitolite repo''
           [(''repo'', LStr ''e''), (''cloned'', LBool False), (''i'', LInt 0),
            (''total'', LInt 4)],
         EnqueueRepoUpdateCall ''e'', PhabricatorMetadataCall h2 ''e'' ''e''],
        ([''e''], [''e'']))
   \<and> entryBody (queueC False) h2 4 0 ''a'' ([], [])
     = ([GetByURICall ''a'', IsRepoClonedCall ''a'',
         Log Info ''fetching Gitolite repo''
           [(''repo'', LStr ''a''), (''cloned'', LBool True), (''i'', LInt 0),
            (''total'', LInt 4)],
         EnqueueRepoUpdateCall ''a'', PhabricatorMetadataCall h2 ''a'' ''a''],
        ([''a''], [''a'']))"
proof -
  have cmd: "PhabricatorMetadataCommand h2 \<noteq> ''''"
    by (simp add: h2_def)
  have en: "Repo_Enabled \<lparr>Repo_URI = ''a'', Repo_Enabled = True\<rparr>"
    "Repo_Enabled \<lparr>Repo_URI = ''e'', Repo_Enabled = True\<rparr>"
    by simp_all
  have on: "GetByURI (queueC True) ''e'' ([], [])
              = (Inr \<lparr>Repo_URI = ''e'', Repo_Enabled = True\<rparr>, ([], []))"
    "IsRepoCloned (queueC True) ''e'' ([], []) = (Inr False, ([], []))"
    "EnqueueRepoUpdate (queueC True) (Repo_URI \<lparr>Repo_URI = ''e'', Repo_Enabled = True\<rparr>)
       ([], []) = (None, ([''e''], []))"
    "GetByURI (queueC True) ''a'' ([], [])
       = (Inr \<lparr>Repo_URI = ''a'', Repo_Enabled = True\<rparr>, ([], []))"
    "IsRepoCloned (queueC True) ''a'' ([], []) = (Inr True, ([], []))"
    "EnqueueRepoUpdate (queueC True) (Repo_URI \<lparr>Repo_URI = ''a'', Repo_Enabled = True\<rparr>)
       ([], []) = (None, ([''a''], []))"
    "DisableAutoGitUpdates (conf_Get (queueC True) ([], []))"
    by (simp_all add: queueC_def)
  have off: "GetByURI (queueC False) ''e'' ([], [])
               = (Inr \<lparr>Repo_URI = ''e'', Repo_Enabled = True\<rparr>, ([], []))"
    "IsRepoCloned (queueC False) ''e'' ([], []) = (Inr False, ([], []))"
    "EnqueueRepoUpdate (queueC False) (Repo_URI \<lparr>Repo_URI = ''e'', Repo_Enabled = True\<rparr>)
       ([], []) = (None, ([''e''], []))"
    "GetByURI (queueC False) ''a'' ([], [])
       = (Inr \<lparr>Repo_URI = ''a'', Repo_Enabled = True\<rparr>, ([], []))"
    "IsRepoCloned (queueC False) ''a'' ([], []) = (Inr True, ([], []))"
    "EnqueueRepoUpdate (queueC False) (Repo_URI \<lparr>Repo_URI = ''a'', Repo_Enabled = True\<rparr>)
       ([], []) = (None, ([''a''], []))"
    "\<not> DisableAutoGitUpdates (conf_Get (queueC False) ([], []))"
    by (simp_all add: queueC_def)
  have refresh: "\<And>d x q m.
      tryUpdateGitolitePhabricatorMetadataDeprecated (queueC d) h2 x x (q, m) = (q, m @ [x])"
    by (simp add: queueC_def)
  from enqueue_decision [OF on(1) en(2) on(2) on(3), of h2 4 0, THEN conjunct1] cmd on(7)
  have "entryBody (queueC True) h2 4 0 ''e'' ([], [])
     = ([GetByURICall ''e'', IsRepoClonedCall ''e'',
         Log Info ''fetching Gitolite repo''
           [(''repo'', LStr ''e''), (''cloned'', LBool False), (''i'', LInt 0),
            (''total'', LInt 4)],
         EnqueueRepoUpdateCall ''e'', PhabricatorMetadataCall h2 ''e'' ''e''],
        ([''e''], [''e'']))"
    by (simp add: refresh)
  moreover
  from enqueue_decision [OF on(4) en(1) on(5) on(6), of h2 4 0, THEN conjunct1] cmd on(7)
  have "entryBody (queueC True) h2 4 0 ''a'' ([], [])
     = ([GetByURICall ''a'', IsRepoClonedCall ''a'', PhabricatorMetadataCall h2 ''a'' ''a''],
        ([], [''a'']))"
    by (simp add: refresh)
  moreover
  from enqueue_decision [OF off(1) en(2) off(2) off(3), of h2 4 0, THEN conjunct1] cmd off(7)
  have "entryBody (queueC False) h2 4 0 ''e'' ([], [])
     = ([GetByURICall ''e'', IsRepoClonedCall ''e'',
         Log Info ''fetching Gitolite repo''
           [(''repo'', LStr ''e''), (''cloned'', LBool False), (''i'', LInt 0),
            (''total'', LInt 4)],
         EnqueueRepoUpdateCall ''e'', PhabricatorMetadataCall h2 ''e'' ''e''],
        ([''e''], [''e'']))"
    by (simp add: refresh)
  moreover
  from enqueue_decision [OF off(4) en(1) off(5) off(6), of h2 4 0, THEN conjunct1] cmd off(7)
  have "entryBody (queueC False) h2 4 0 ''a'' ([], [])
     = ([GetByURICall ''a'', IsRepoClonedCall ''a'',
         Log Info ''fetching Gitolite repo''
           [(''repo'', LStr ''a''), (''cloned'', LBool True), (''i'', LInt 0),
            (''total'', LInt 4)],
         EnqueueRepoUpdateCall ''a'', PhabricatorMetadataCall h2 ''a'' ''a''],
        ([''a''], [''a'']))"
    by (simp add: refresh)
  ultimately show ?thesis
    by (intro conjI)
qed

text \<open>
  \<^bold>\<open>C10.\<close> Under a host configuration with a metadata-refresh command, for an entry
  whose update is dispatched, with \<open>(r, w3)\<close> the answer of \<open>EnqueueRepoUpdate\<close>: when the
  dispatch returns an error, the body ends with the warning, the metadata refresh is
  not applied and the final world is \<open>w3\<close>, the world the dispatcher left; when the
  dispatch succeeds, the metadata refresh is applied (once, for that entry) to \<open>w3\<close>
  and the final world is the one it leaves.
\<close>

theorem metadata_after_dispatch:
  assumes "PhabricatorMetadataCommand gconf \<noteq> ''''"
    and "GetByURI C entry w = (Inr repo, w1)"
    and "Repo_Enabled repo"
    and "IsRepoCloned C entry w1 = (Inr cloned, w2)"
    and "\<not> DisableAutoGitUpdates (conf_Get C w2) \<or> \<not> cloned"
    and "EnqueueRepoUpdate C (Repo_URI repo) w2 = (r, w3)"
  shows "entryBody C gconf ntotal i entry w =
           (case r of
              Some err \<Rightarrow>
                ([GetByURICall entry, IsRepoClonedCall entry,
                  Log Info ''fetching Gitolite repo''
                    [(''repo'', LStr entry), (''cloned'', LBool cloned),
                     (''i'', LInt i), (''total'', LInt ntotal)],
                  EnqueueRepoUpdateCall (Repo_URI repo),
                  Log Warn ''Could not ensure repository cloned''
                    [(''uri'', LStr entry), (''error'', LErr err)]],
                 w3)
            | None \<Rightarrow>
                ([GetByURICall entry, IsRepoClonedCall entry,
                  Log Info ''fetching Gitolite repo''
                    [(''repo'', LStr entry), (''cloned'', LBool cloned),
                     (''i'', LInt i), (''total'', LInt ntotal)],
                  EnqueueRepoUpdateCall (Repo_URI repo),
                  PhabricatorMetadataCall gconf entry entry],
                 tryUpdateGitolitePhabricatorMetadataDeprecated C gconf entry entry w3))
       \<and> filter isMetadataCall (fst (entryBody C gconf ntotal i entry w))
           = (if r = None then [PhabricatorMetadataCall gconf entry entry] else [])"
  using assms
  by (cases r) (auto simp add: entryBody_def metadataStep_def)

theorem metadata_after_dispatch_witness:
  "PhabricatorMetadataCommand h2 \<noteq> ''''
   \<and> EnqueueRepoUpdate (queueC False) ''b'' ([], []) = (Some (Error ''busy''), ([], []))
   \<and> entryBody (queueC False) h2 4 1 ''b'' ([], [])
       = ([GetByURICall ''b'', IsRepoClonedCall ''b'',
           Log Info ''fetching Gitolite repo''
             [(''repo'', LStr ''b''), (''cloned'', LBool False), (''i'', LInt 1),
              (''total'', LInt 4)],
           EnqueueRepoUpdateCall ''b'',
           Log Warn ''Could not ensure repository cloned''
             [(''uri'', LStr ''b''), (''error'', LErr (Error ''busy''))]],
          ([], []))
   \<and> EnqueueRepoUpdate (queueC False) ''a'' ([], []) = (None, ([''a''], []))
   \<and> entryBody (queueC False) h2 4 0 ''a'' ([], [])
       = ([GetByURICall ''a'', IsRepoClonedCall ''a'',
           Log Info ''fetching Gitolite repo''
             [(''repo'', LStr ''a''), (''cloned'', LBool True), (''i'', LInt 0),
              (''total'', LInt 4)],
           EnqueueRepoUpdateCall ''a'', PhabricatorMetadataCall h2 ''a'' ''a''],
          ([''a''], [''a'']))"
proof -
  have cmd: "PhabricatorMetadataCommand h2 \<noteq> ''''"
    by (simp add: h2_def)
  have en: "Repo_Enabled \<lparr>Repo_URI = ''a'', Repo_Enabled = True\<rparr>"
    "Repo_Enabled \<lparr>Repo_URI = ''b'', Repo_Enabled = True\<rparr>"
    by simp_all
  have b: "GetByURI (queueC False) ''b'' ([], [])
             = (Inr \<lparr>Repo_URI = ''b'', Repo_Enabled = True\<rparr>, ([], []))"
    "IsRepoCloned (queueC False) ''b'' ([], []) = (Inr False, ([], []))"
    "\<not> DisableAutoGitUpdates (conf_Get (queueC False) ([], [])) \<or> \<not> False"
    "EnqueueRepoUpdate (queueC False) (Repo_URI \<lparr>Repo_URI = ''b'', Repo_Enabled = True\<rparr>)
       ([], []) = (Some (Error ''busy''), ([], []))"
    by (simp_all add: queueC_def)
  have a: "GetByURI (queueC False) ''a'' ([], [])
             = (Inr \<lparr>Repo_URI = ''a'', Repo_Enabled = True\<rparr>, ([], []))"
    "IsRepoCloned (queueC False) ''a'' ([], []) = (Inr True, ([], []))"
    "\<not> DisableAutoGitUpdates (conf_Get (queueC False) ([], [])) \<or> \<not> True"
    "EnqueueRepoUpdate (queueC False) (Repo_URI \<lparr>Repo_URI = ''a'', Repo_Enabled = True\<rparr>)
       ([], []) = (None, ([''a''], []))"
    by (simp_all add: queueC_def)
  have refresh:
    "tryUpdateGitolitePhabricatorMetadataDeprecated (queueC False) h2 ''a'' ''a'' ([''a''], [])
       = ([''a''], [''a''])"
    by (simp add: queueC_def)
  from metadata_after_dispatch [OF cmd b(1) en(2) b(2) b(3) b(4), of 4 1, THEN conjunct1]
  have "entryBody (queueC False) h2 4 1 ''b'' ([], [])
       = ([GetByURICall ''b'', IsRepoClonedCall ''b'',
           Log Info ''fetching Gitolite repo''
             [(''repo'', LStr ''b''), (''cloned'', LBool False), (''i'', LInt 1),
              (''total'', LInt 4)],
           EnqueueRepoUpdateCall ''b'',
           Log Warn ''Could not ensure repository cloned''
             [(''uri'', LStr ''b''), (''error'', LErr (Error ''busy''))]],
          ([], []))"
    by simp
  moreover
  from metadata_after_dispatch [OF cmd a(1) en(1) a(2) a(3) a(4), of 4 0, THEN conjunct1]
  have "entryBody (queueC False) h2 4 0 ''a'' ([], [])
       = ([GetByURICall ''a'', IsRepoClonedCall ''a'',
           Log Info ''fetching Gitolite repo''
             [(''repo'', LStr ''a''), (''cloned'', LBool True), (''i'', LInt 0),
              (''total'', LInt 4)],
           EnqueueRepoUpdateCall ''a'', PhabricatorMetadataCall h2 ''a'' ''a''],
          ([''a''], [''a'']))"
    by (simp add: refresh)
  moreover from b(4)
  have "EnqueueRepoUpdate (queueC False) ''b'' ([], []) = (Some (Error ''busy''), ([], []))"
    by simp
  moreover from a(4)
  have "EnqueueRepoUpdate (queueC False) ''a'' ([], []) = (None, ([''a''], []))"
    by simp
  ultimately show ?thesis
    using cmd by (intro conjI)
qed



text \<open>
  \<^bold>\<open>C1.\<close> The claim that a listing failure for one host leaves the passes of the
  remaining hosts running does not hold: on \<open>err != nil\<close> the handler returns. With
  \<open>h1\<close> (unreachable) configured before \<open>h2\<close>, host \<open>h2\<close> is never listed.
\<close>

theorem listing_failure_counterexample:
  "Gitolite (conf_Get testC 0) = [h1, h2]
   \<and> fst (ListGitolite testC ''h2'' 0) = Inr [''a'', ''b'', ''c'', ''d'']
   \<and> serveGitoliteUpdateReposDeprecated testC 0
       = (Some (Error ''unreachable''),
          [Log Debug ''serveGitoliteUpdateRepos'' [], ListGitoliteCall ''h1''], 0)"
  by (simp add: serveGitoliteUpdateReposDeprecated_def hostPass_def testC_def h1_def h2_def)

text \<open>
  \<^bold>\<open>C1, as the code has it.\<close> When the listing call fails for a configured host, the
  handler stops there: the passes of the hosts configured before it have run, the pass
  of the failing host consists of the listing call alone (no registration), the listing
  error is returned to the caller, no host configured after it is processed and no
  response is written.
\<close>

theorem listing_failure_aborts:
  assumes "Gitolite (conf_Get C w) = pre @ gconf # post"
    and "hostsLoop C pre w = (None, evs, w1)"
    and "ListGitolite C (Host gconf) w1 = (Inl err, w2)"
  shows "serveGitoliteUpdateReposDeprecated C w
           = (Some err,
              Log Debug ''serveGitoliteUpdateRepos'' [] # evs @ [ListGitoliteCall (Host gconf)],
              w2)"
proof -
  from assms(3) have "hostPass C gconf w1 = (Some err, [ListGitoliteCall (Host gconf)], w2)"
    by (simp add: hostPass_def)
  then have "hostsLoop C (gconf # post) w1 = (Some err, [ListGitoliteCall (Host gconf)], w2)"
    by simp
  with assms(2)
  have "hostsLoop C (pre @ gconf # post) w = (Some err, evs @ [ListGitoliteCall (Host gconf)], w2)"
    by (simp add: hostsLoop_append)
  with assms(1) show ?thesis
    by (simp add: serveGitoliteUpdateReposDeprecated_def)
qed

theorem listing_failure_aborts_witness:
  "Gitolite (conf_Get testC2 0) = [h2] @ h1 # []
   \<and> fst (hostsLoop testC2 [h2] 0) = None
   \<and> ListGitolite testC2 (Host h1) 4 = (Inl (Error ''unreachable''), 4)
   \<and> fst (serveGitoliteUpdateReposDeprecated testC2 0) = Some (Error ''unreachable'')
   \<and> last (fst (snd (serveGitoliteUpdateReposDeprecated testC2 0))) = ListGitoliteCall ''h1''"
proof -
  have conf: "Gitolite (conf_Get testC2 0) = [h2] @ h1 # []"
    by (simp add: testC2_def h1_def h2_def)
  obtain evs where pre: "hostsLoop testC2 [h2] 0 = (None, evs, 4)"
    by (simp add: hostPass_testC2_h2)
  have list: "ListGitolite testC2 (Host h1) 4 = (Inl (Error ''unreachable''), 4)"
    by (simp add: testC2_def testC_def h1_def)
  from listing_failure_aborts [OF conf pre list] conf pre list show ?thesis
    by (simp add: h1_def)
qed




end
